theory Spec2Isabelle
  imports Complex_Main
begin

section \<open>The tool-calling conversation loop of the scenario agents\<close>

text \<open>
  The development embeds two programs of the repository.

  \<^item> The graph agent of package \<open>ecommerce_customer_support\<close> (\<open>NewAgent\<close>): the three
    closures \<open>assistant\<close>, \<open>toolExecutor\<close> and the branch function, and the edges that
    wire them (\<open>START \<rightarrow> assistant\<close>, the branch after \<open>assistant\<close>, \<open>tools \<rightarrow> assistant\<close>).
    The agents of \<open>it_help_desk\<close>, \<open>soc\<close> and \<open>legal\<close> have the same three closures over
    their own tool names and scenario record.
  \<^item> The direct tool-calling program (\<open>main\<close> with the tools \<open>multiply\<close>,
    \<open>exponentiate\<close> and \<open>add\<close>).

  What lies outside the repository is a parameter of the model: the chat model
  (\<open>chatModel.Generate\<close>), the JSON library (\<open>json.Marshal\<close>, \<open>json.Unmarshal\<close>) and the
  number of steps the graph engine grants a run. Output to the terminal and to the log
  (\<open>fmt.Printf\<close>, \<open>log.Printf\<close>) is not part of the model.
\<close>

subsection \<open>Messages (package \<open>schema\<close>, the fields the programs use)\<close>

datatype RoleType = System | User | Assistant | Tool

record FunctionCall =
  Name :: string
  Arguments :: string

record ToolCall =
  ID :: string
  Function :: FunctionCall

record Message =
  Role :: RoleType
  Content :: string
  ToolCalls :: "ToolCall list"
  ToolCallID :: string

text \<open>
  A history is a slice of pointers to messages. Its entries are taken to be non-nil:
  the programs append the message \<open>Generate\<close> returns together with a nil error, and
  messages they build themselves.
\<close>

definition SystemMessage :: "string \<Rightarrow> Message" where
  "SystemMessage content =
     \<lparr>Role = System, Content = content, ToolCalls = [], ToolCallID = ''''\<rparr>"

definition UserMessage :: "string \<Rightarrow> Message" where
  "UserMessage content =
     \<lparr>Role = User, Content = content, ToolCalls = [], ToolCallID = ''''\<rparr>"

subsection \<open>State of the graph agent\<close>

text \<open>
  \<open>AgentState\<close> holds the scenario record and the message history. The scenario record
  (\<open>Order\<close> here; \<open>Ticket\<close>, \<open>Incident\<close>, \<open>Matter\<close> in the sibling packages) is a pointer
  that may be nil, and no node looks inside it except through \<open>json.Marshal\<close>, so its
  type is a parameter of the state; \<open>Order\<close> below is the record of this package.
  Its \<open>float64\<close> field, like the amount of a refund further down, is carried and
  printed but never computed with; it is a real number here.
\<close>

record Order =
  OrderID :: string
  Status :: string
  Total :: real
  CustomerID :: string

record 'o AgentState =
  Order :: "'o option"
  Messages :: "Message list"

text \<open>
  The ways a run can fail: an error a node returns, the error of the graph engine for a
  run that has used up its steps (\<open>exceeds max steps\<close>), the end of the process by
  \<open>log.Fatal\<close>, and the run-time panics of the index expression
  \<open>state.Messages[len(state.Messages)-1]\<close>, of a nil pointer or nil interface value
  that is dereferenced, and of a handler.
\<close>

datatype failure =
  ReturnedError string
  | ExceedsMaxSteps
  | Fatal string
  | IndexOutOfRange
  | NilPointerDereference
  | HandlerPanic string

subsection \<open>Tools of the e-commerce agent\<close>

text \<open>
  The four argument structs. A handler receives one of them behind \<open>interface{}\<close>, so
  they form one datatype; the zero value of each struct has empty strings and amount 0.
\<close>

datatype Args =
  SendCustomerMessageArgs string string
  | IssueRefundArgs string real
  | CancelOrderArgs string
  | UpdateAddressArgs string string

text \<open>A Go result \<open>(string, error)\<close>: both components, the error nil (\<open>None\<close>) or not.\<close>

type_synonym tool_result = "string \<times> string option"

text \<open>A handler of the map \<open>toolHandlers\<close>; \<open>Inl\<close> is a panic inside the handler.\<close>

type_synonym handler = "Args \<Rightarrow> string + tool_result"

text \<open>
  \<open>json.Unmarshal(data, &args)\<close> at one struct type: given the payload and the fields of
  the struct before the call, the error (nil or not) and the fields after the call. The
  Go function works at every type by reflection; the executor uses it at the four
  argument structs, so the parameter is a record of four decoders.
\<close>

type_synonym 'a decoder = "string \<Rightarrow> 'a \<Rightarrow> string option \<times> 'a"

record unmarshal =
  intoSendCustomerMessageArgs :: "(string \<times> string) decoder"
  intoIssueRefundArgs :: "(string \<times> real) decoder"
  intoCancelOrderArgs :: "string decoder"
  intoUpdateAddressArgs :: "(string \<times> string) decoder"

definition SendCustomerMessage :: "Args \<Rightarrow> tool_result" where
  "SendCustomerMessage args = (''sent'', None)"

definition IssueRefund :: "Args \<Rightarrow> tool_result" where
  "IssueRefund args = (''refund_queued'', None)"

definition CancelOrder :: "Args \<Rightarrow> tool_result" where
  "CancelOrder args = (''cancelled'', None)"

definition UpdateAddressForOrder :: "Args \<Rightarrow> tool_result" where
  "UpdateAddressForOrder args = (''address_updated'', None)"

text \<open>
  The map \<open>toolHandlers\<close> of \<open>NewAgent\<close>. Each entry asserts the dynamic type of its
  argument (\<open>args.(*SendCustomerMessageArgs)\<close>, ...), which panics on any other type.
\<close>

definition toolHandlers :: "string \<rightharpoonup> handler" where
  "toolHandlers =
     [''send_customer_message'' \<mapsto>
        (\<lambda>args. case args of
           SendCustomerMessageArgs _ _ \<Rightarrow> Inr (SendCustomerMessage args)
         | _ \<Rightarrow> Inl ''interface conversion''),
      ''issue_refund'' \<mapsto>
        (\<lambda>args. case args of
           IssueRefundArgs _ _ \<Rightarrow> Inr (IssueRefund args)
         | _ \<Rightarrow> Inl ''interface conversion''),
      ''cancel_order'' \<mapsto>
        (\<lambda>args. case args of
           CancelOrderArgs _ \<Rightarrow> Inr (CancelOrder args)
         | _ \<Rightarrow> Inl ''interface conversion''),
      ''update_address_for_order'' \<mapsto>
        (\<lambda>args. case args of
           UpdateAddressArgs _ _ \<Rightarrow> Inr (UpdateAddressForOrder args)
         | _ \<Rightarrow> Inl ''interface conversion'')]"

subsection \<open>The tool executor node\<close>

text \<open>
  The \<open>switch tc.Function.Name\<close> of the executor: each case declares a zero struct,
  unmarshals the arguments into it, discards the error of \<open>json.Unmarshal\<close>
  (\<open>_ = json.Unmarshal(...)\<close>) and calls the handler on the struct. With no matching
  case, \<open>resultStr\<close> and \<open>err\<close> keep their zero values.
\<close>

definition switch_call :: "unmarshal \<Rightarrow> handler \<Rightarrow> ToolCall \<Rightarrow> string + tool_result" where
  "switch_call U h tc =
     (let name = Name (Function tc); arguments = Arguments (Function tc) in
      if name = ''send_customer_message'' then
        (case snd (intoSendCustomerMessageArgs U arguments ('''', '''')) of
           (order_id, text) \<Rightarrow> h (SendCustomerMessageArgs order_id text))
      else if name = ''issue_refund'' then
        (case snd (intoIssueRefundArgs U arguments ('''', 0)) of
           (order_id, amount) \<Rightarrow> h (IssueRefundArgs order_id amount))
      else if name = ''cancel_order'' then
        h (CancelOrderArgs (snd (intoCancelOrderArgs U arguments '''')))
      else if name = ''update_address_for_order'' then
        (case snd (intoUpdateAddressArgs U arguments ('''', '''')) of
           (order_id, shipping_address) \<Rightarrow> h (UpdateAddressArgs order_id shipping_address))
      else Inr ('''', None))"

text \<open>
  \<open>if err != nil { resultStr = fmt.Sprintf("Error: %v", err) }\<close>, then the Tool message
  that is appended.
\<close>

definition result_content :: "tool_result \<Rightarrow> string" where
  "result_content r = (case snd r of None \<Rightarrow> fst r | Some err \<Rightarrow> ''Error: '' @ err)"

definition tool_message :: "string \<Rightarrow> ToolCall \<Rightarrow> Message" where
  "tool_message resultStr tc =
     \<lparr>Role = Tool, Content = resultStr, ToolCalls = [], ToolCallID = ID tc\<rparr>"

text \<open>
  The loop \<open>for _, tc := range lastMsg.ToolCalls\<close>. A name that is not a key of the
  handler map is logged and skipped (\<open>continue\<close>): nothing is appended for it.
\<close>

fun tool_loop ::
  "(string \<rightharpoonup> handler) \<Rightarrow> unmarshal \<Rightarrow> ToolCall list \<Rightarrow> 'o AgentState \<Rightarrow> failure + 'o AgentState"
where
  "tool_loop H U [] state = Inr state"
| "tool_loop H U (tc # tcs) state =
     (case H (Name (Function tc)) of
        None \<Rightarrow> tool_loop H U tcs state
      | Some h \<Rightarrow>
          (case switch_call U h tc of
             Inl p \<Rightarrow> Inl (HandlerPanic p)
           | Inr r \<Rightarrow>
               tool_loop H U tcs
                 (state\<lparr>Messages := Messages state @ [tool_message (result_content r) tc]\<rparr>)))"

definition toolExecutor ::
  "(string \<rightharpoonup> handler) \<Rightarrow> unmarshal \<Rightarrow> 'o AgentState \<Rightarrow> failure + 'o AgentState"
where
  "toolExecutor H U state =
     (if Messages state = [] then Inl IndexOutOfRange
      else let lastMsg = last (Messages state) in
        if length (ToolCalls lastMsg) = 0 then Inr state
        else tool_loop H U (ToolCalls lastMsg) state)"

subsection \<open>The assistant node, the branch and the graph\<close>

text \<open>
  The assistant builds the system prompt from the scenario record, puts it in front of
  the history for the model call only, and appends the model's answer to the history.
  An error of the model is returned as it is.
\<close>

definition sysPrompt :: "string \<Rightarrow> string" where
  "sysPrompt orderJSON =
     ''You are a helpful e-commerce support agent.'' @ [CHR 0x0A] @
     ''When you act, you MUST do exactly TWO steps in order:'' @ [CHR 0x0A] @
     ''  1) call one business tool (issue_refund / cancel_order / modify_order)'' @ [CHR 0x0A] @
     ''  2) call send_customer_message with confirmation text'' @ [CHR 0x0A] @
     ''Then STOP.'' @ [CHR 0x0A, CHR 0x0A] @
     ''ORDER: '' @ orderJSON"

text \<open>\<open>Generate\<close>: the answer of the model to a list of messages, or its error.\<close>

type_synonym chat_model = "Message list \<Rightarrow> string + Message"

definition inputMsgs :: "('o option \<Rightarrow> string) \<Rightarrow> 'o AgentState \<Rightarrow> Message list" where
  "inputMsgs Marshal state = SystemMessage (sysPrompt (Marshal (Order state))) # Messages state"

definition assistant ::
  "chat_model \<Rightarrow> ('o option \<Rightarrow> string) \<Rightarrow> 'o AgentState \<Rightarrow> failure + 'o AgentState"
where
  "assistant Generate Marshal state =
     (case Generate (inputMsgs Marshal state) of
        Inl err \<Rightarrow> Inl (ReturnedError err)
      | Inr resp \<Rightarrow> Inr (state\<lparr>Messages := Messages state @ [resp]\<rparr>))"

definition END :: string where
  "END = ''end''"

definition branch :: "'o AgentState \<Rightarrow> failure + string" where
  "branch state =
     (if Messages state = [] then Inl IndexOutOfRange
      else let lastMsg = last (Messages state) in
        if length (ToolCalls lastMsg) > 0 then Inr ''tools'' else Inr END)"

text \<open>
  A run of the compiled graph: \<open>assistant\<close>, then the branch, then either the end of the
  run or \<open>tools\<close> and \<open>assistant\<close> again. The engine limits the steps of a run; the
  first argument is the number of visits of \<open>assistant\<close> that limit allows. A run that
  needs one more returns the error of the engine, as a run returns the error of a node.
\<close>

fun Invoke ::
  "nat \<Rightarrow> chat_model \<Rightarrow> ('o option \<Rightarrow> string) \<Rightarrow> (string \<rightharpoonup> handler) \<Rightarrow> unmarshal \<Rightarrow>
   'o AgentState \<Rightarrow> failure + 'o AgentState"
where
  "Invoke 0 Generate Marshal H U state = Inl ExceedsMaxSteps"
| "Invoke (Suc n) Generate Marshal H U state =
     (case assistant Generate Marshal state of
        Inl e \<Rightarrow> Inl e
      | Inr state1 \<Rightarrow>
          (case branch state1 of
             Inl e \<Rightarrow> Inl e
           | Inr next \<Rightarrow>
               if next = ''tools'' then
                 (case toolExecutor H U state1 of
                    Inl e \<Rightarrow> Inl e
                  | Inr state2 \<Rightarrow> Invoke n Generate Marshal H U state2)
               else Inr state1))"




subsection \<open>The direct tool-calling program\<close>

text \<open>
  \<open>tool.InvokableTool\<close>: the name its \<open>Info\<close> reports and \<open>InvokableRun\<close> from the JSON
  arguments to a result \<open>(string, error)\<close>. \<open>utils.InferTool\<close> wraps the Go functions
  \<open>multiply\<close>, \<open>exponentiate\<close> and \<open>add\<close> (decoding of the arguments, \<open>float64\<close>
  arithmetic, formatting of the result); what the three wrapped functions compute is a
  parameter of the program.
\<close>

record InvokableTool =
  InfoName :: string
  InvokableRun :: "string \<Rightarrow> tool_result"

definition InferTool :: "string \<Rightarrow> (string \<Rightarrow> tool_result) \<Rightarrow> InvokableTool" where
  "InferTool name run = \<lparr>InfoName = name, InvokableRun = run\<rparr>"

definition tools ::
  "(string \<Rightarrow> tool_result) \<Rightarrow> (string \<Rightarrow> tool_result) \<Rightarrow> (string \<Rightarrow> tool_result) \<Rightarrow>
   InvokableTool list"
where
  "tools multiply exponentiate add =
     [InferTool ''multiply'' multiply, InferTool ''exponentiate'' exponentiate,
      InferTool ''add'' add]"

text \<open>\<open>for i, t := range tools { ...; toolMap[info.Name] = t }\<close>\<close>

fun build_toolMap ::
  "InvokableTool list \<Rightarrow> (string \<rightharpoonup> InvokableTool) \<Rightarrow> (string \<rightharpoonup> InvokableTool)"
where
  "build_toolMap [] toolMap = toolMap"
| "build_toolMap (t # ts) toolMap = build_toolMap ts (toolMap(InfoName t \<mapsto> t))"

text \<open>
  The dispatch loop \<open>for _, tc := range resp.ToolCalls\<close>. The map lookup has no
  \<open>ok\<close> check: for a missing key it yields the nil interface value, and the call of
  \<open>InvokableRun\<close> on it panics. The error of \<open>InvokableRun\<close> is discarded.
\<close>

fun dispatch_loop ::
  "(string \<rightharpoonup> InvokableTool) \<Rightarrow> ToolCall list \<Rightarrow> Message list \<Rightarrow> failure + Message list"
where
  "dispatch_loop toolMap [] msgs = Inr msgs"
| "dispatch_loop toolMap (tc # tcs) msgs =
     (case toolMap (Name (Function tc)) of
        None \<Rightarrow> Inl NilPointerDereference
      | Some t \<Rightarrow>
          (let result = fst (InvokableRun t (Arguments (Function tc)))
           in dispatch_loop toolMap tcs (msgs @ [tool_message result tc])))"

text \<open>
  \<open>main\<close>: the history starts with the one user message; an error of the first model
  call ends the process (\<open>log.Fatal\<close>); the error of the final call is discarded and the
  content of the final message is printed, which dereferences the nil message when the
  call has failed. The result is the history at the end and the content printed.
\<close>

definition main ::
  "chat_model \<Rightarrow> (string \<Rightarrow> tool_result) \<Rightarrow> (string \<Rightarrow> tool_result) \<Rightarrow>
   (string \<Rightarrow> tool_result) \<Rightarrow> failure + Message list \<times> string"
where
  "main Generate multiply exponentiate add =
     (let toolMap = build_toolMap (tools multiply exponentiate add) Map.empty;
          msgs = [UserMessage ''What is 393 * 12.25? Also, what is 11 + 49?'']
      in case Generate msgs of
           Inl err \<Rightarrow> Inl (Fatal err)
         | Inr resp \<Rightarrow>
             (case dispatch_loop toolMap (ToolCalls resp) (msgs @ [resp]) of
                Inl p \<Rightarrow> Inl p
              | Inr msgs' \<Rightarrow>
                  (case Generate msgs' of
                     Inl err \<Rightarrow> Inl NilPointerDereference
                   | Inr final \<Rightarrow> Inr (msgs', Content final))))"


subsection \<open>Vocabulary of the properties\<close>

text \<open>
  The handler of an invocation returns (it does not panic); an invocation whose name has
  no handler calls none.
\<close>

definition handler_returns :: "(string \<rightharpoonup> handler) \<Rightarrow> unmarshal \<Rightarrow> ToolCall \<Rightarrow> bool" where
  "handler_returns H U tc =
     (case H (Name (Function tc)) of
        None \<Rightarrow> True
      | Some h \<Rightarrow> (case switch_call U h tc of Inl _ \<Rightarrow> False | Inr _ \<Rightarrow> True))"

text \<open>
  The error \<open>json.Unmarshal\<close> returns in the case of the switch an invocation selects,
  which the executor discards; \<open>None\<close> when the call returns nil or no case is selected.
\<close>

definition decode_error :: "unmarshal \<Rightarrow> ToolCall \<Rightarrow> string option" where
  "decode_error U tc =
     (let name = Name (Function tc); arguments = Arguments (Function tc) in
      if name = ''send_customer_message'' then
        fst (intoSendCustomerMessageArgs U arguments ('''', ''''))
      else if name = ''issue_refund'' then fst (intoIssueRefundArgs U arguments ('''', 0))
      else if name = ''cancel_order'' then fst (intoCancelOrderArgs U arguments '''')
      else if name = ''update_address_for_order'' then
        fst (intoUpdateAddressArgs U arguments ('''', ''''))
      else None)"

text \<open>The invocations whose name is a key of the handler map.\<close>

definition registered :: "(string \<rightharpoonup> 'h) \<Rightarrow> ToolCall \<Rightarrow> bool" where
  "registered H tc = (H (Name (Function tc)) \<noteq> None)"

text \<open>The results the four handlers of the agent can return.\<close>

definition canned :: "string set" where
  "canned = {''sent'', ''refund_queued'', ''cancelled'', ''address_updated''}"

text \<open>The names the direct program registers.\<close>

definition known_tool :: "ToolCall \<Rightarrow> bool" where
  "known_tool tc = (Name (Function tc) \<in> {''multiply'', ''exponentiate'', ''add''})"

subsection \<open>Sample inputs\<close>

text \<open>
  The inputs at which the properties below are evaluated. The state of the demo mode of
  \<open>cmd/ecommerce_customer_support/main.go\<close>:
\<close>

definition demo_order :: Order where
  "demo_order =
     \<lparr>OrderID = ''A12345'', Status = ''Delivered'', Total = 1999 / 100, CustomerID = ''CUST001''\<rparr>"

definition demo_state :: "Order AgentState" where
  "demo_state =
     \<lparr>Order = Some demo_order, Messages = [UserMessage ''My mug arrived broken. Refund?'']\<rparr>"

text \<open>A state whose history is empty, as the evaluation mode accepts it from its input.\<close>

definition empty_state :: "Order AgentState" where
  "empty_state = \<lparr>Order = None, Messages = []\<rparr>"

text \<open>\<open>json.Marshal\<close> on the nil pointer and on the demo order.\<close>

definition Marshal_demo :: "Order option \<Rightarrow> string" where
  \<open>Marshal_demo ord =
     (case ord of
        None \<Rightarrow> ''null''
      | Some _ \<Rightarrow>
          ''{"order_id":"A12345","status":"Delivered","total":19.99,"customer_id":"CUST001"}'')\<close>

text \<open>
  \<open>json.Unmarshal\<close> on the payloads used below: the complete objects are decoded; any
  other payload, such as the truncated object \<open>{\<close>, is reported as a syntax error and
  the struct stays as it was.
\<close>

definition decode_only :: "string \<Rightarrow> 'a \<Rightarrow> 'a decoder" where
  "decode_only payload v data args =
     (if data = payload then (None, v) else (Some ''unexpected end of JSON input'', args))"

definition Unmarshal_demo :: unmarshal where
  \<open>Unmarshal_demo =
     \<lparr>intoSendCustomerMessageArgs =
        decode_only ''{"order_id":"A12345","text":"Your order is cancelled."}''
          (''A12345'', ''Your order is cancelled.''),
      intoIssueRefundArgs =
        decode_only ''{"order_id":"A12345","amount":19.99}'' (''A12345'', 1999 / 100),
      intoCancelOrderArgs = decode_only ''{"order_id":"A12345"}'' ''A12345'',
      intoUpdateAddressArgs =
        decode_only ''{"order_id":"A12345","shipping_address":"1 Main St"}''
          (''A12345'', ''1 Main St'')\<rparr>\<close>

definition AssistantMessage :: "string \<Rightarrow> ToolCall list \<Rightarrow> Message" where
  "AssistantMessage content toolCalls =
     \<lparr>Role = Assistant, Content = content, ToolCalls = toolCalls, ToolCallID = ''''\<rparr>"

definition call_add :: ToolCall where
  \<open>call_add = \<lparr>ID = ''a'', Function = \<lparr>Name = ''add'', Arguments = ''{"x":2,"y":3}''\<rparr>\<rparr>\<close>

definition call_cancel :: ToolCall where
  \<open>call_cancel =
     \<lparr>ID = ''b'', Function = \<lparr>Name = ''cancel_order'', Arguments = ''{"order_id":"A12345"}''\<rparr>\<rparr>\<close>

definition call_truncated :: ToolCall where
  "call_truncated = \<lparr>ID = ''c'', Function = \<lparr>Name = ''cancel_order'', Arguments = ''{''\<rparr>\<rparr>"

definition call_divide :: ToolCall where
  \<open>call_divide = \<lparr>ID = ''d'', Function = \<lparr>Name = ''divide'', Arguments = ''{"x":2,"y":3}''\<rparr>\<rparr>\<close>

text \<open>The demo state after the assistant has appended an answer of the model.\<close>

definition answered :: "string \<Rightarrow> ToolCall list \<Rightarrow> Order AgentState" where
  "answered content toolCalls =
     demo_state\<lparr>Messages := Messages demo_state @ [AssistantMessage content toolCalls]\<rparr>"

text \<open>Scripted models. The first asks for \<open>cancel_order\<close> and answers once a tool has run.\<close>

definition support_model :: chat_model where
  "support_model msgs =
     (if list_ex (\<lambda>m. Role m = Tool) msgs
      then Inr (AssistantMessage ''Your order is cancelled.'' [])
      else Inr (AssistantMessage '''' [call_cancel]))"

text \<open>A model that cannot be reached, and one that fails on its second call.\<close>

definition offline_model :: chat_model where
  "offline_model msgs = Inl ''connection refused''"


text \<open>A model whose answer has both content and a tool call.\<close>

definition both_model :: chat_model where
  "both_model msgs = Inr (AssistantMessage ''I will cancel the order.'' [call_cancel])"

text \<open>
  The scripted model of the round trip: it asks for \<open>add(x=2,y=3)\<close> and gives the final
  answer \<open>5\<close> once it sees a Tool message with content \<open>5\<close>.
\<close>

definition add_model :: chat_model where
  "add_model msgs =
     (if list_ex (\<lambda>m. Role m = Tool \<and> Content m = ''5'') msgs
      then Inr (AssistantMessage ''5'' [])
      else Inr (AssistantMessage '''' [call_add]))"

text \<open>A model that asks for a tool the direct program has not registered.\<close>

definition divide_model :: chat_model where
  "divide_model msgs = Inr (AssistantMessage '''' [call_add, call_divide])"

text \<open>
  The three tools of the direct program on the payload \<open>{"x":2,"y":3}\<close>
  (\<open>2 * 3\<close>, \<open>2 ^ 3\<close>, \<open>2 + 3\<close>); any other payload is reported as an error.
\<close>

definition on_2_3 :: "string \<Rightarrow> string \<Rightarrow> tool_result" where
  \<open>on_2_3 result arguments =
     (if arguments = ''{"x":2,"y":3}'' then (result, None)
      else ('''', Some ''unexpected end of JSON input''))\<close>

definition multiply_2_3 :: "string \<Rightarrow> tool_result" where
  "multiply_2_3 = on_2_3 ''6''"

definition exponentiate_2_3 :: "string \<Rightarrow> tool_result" where
  "exponentiate_2_3 = on_2_3 ''8''"

definition add_2_3 :: "string \<Rightarrow> tool_result" where
  "add_2_3 = on_2_3 ''5''"



section \<open>Auxiliary facts\<close>

lemma tool_loop_shape:
  "tool_loop H U tcs st = Inr st' \<Longrightarrow>
   \<exists>ms. st' = st\<lparr>Messages := Messages st @ ms\<rparr> \<and>
        map ToolCallID ms = map ID (filter (registered H) tcs) \<and>
        list_all (\<lambda>m. Role m = Tool) ms"
proof (induction tcs arbitrary: st)
  case Nil
  then show ?case by simp
next
  case (Cons tc tcs)
  show ?case
  proof (cases "H (Name (Function tc))")
    case None
    with Cons.prems have "tool_loop H U tcs st = Inr st'" by simp
    moreover from None have "\<not> registered H tc" by (simp add: registered_def)
    ultimately show ?thesis using Cons.IH [of st] by simp
  next
    case (Some h)
    with Cons.prems obtain r where r: "switch_call U h tc = Inr r"
      and rest: "tool_loop H U tcs
                   (st\<lparr>Messages := Messages st @ [tool_message (result_content r) tc]\<rparr>) = Inr st'"
      by (auto split: sum.splits)
    from Cons.IH [OF rest] obtain ms where
      ms: "st' = st\<lparr>Messages := Messages st @ tool_message (result_content r) tc # ms\<rparr>"
          "map ToolCallID ms = map ID (filter (registered H) tcs)"
          "list_all (\<lambda>m. Role m = Tool) ms"
      by auto
    have reg: "registered H tc" using Some by (simp add: registered_def)
    show ?thesis
      apply (rule exI [of _ "tool_message (result_content r) tc # ms"])
      using ms reg by (simp add: tool_message_def)
  qed
qed

lemma tool_loop_returns:
  "list_all (handler_returns H U) tcs \<Longrightarrow> \<exists>st'. tool_loop H U tcs st = Inr st'"
proof (induction tcs arbitrary: st)
  case Nil
  then show ?case by simp
next
  case (Cons tc tcs)
  then show ?case
    by (auto simp: handler_returns_def split: option.splits sum.splits)
qed

lemma toolHandlers_return: "handler_returns toolHandlers U tc"
  by (simp add: handler_returns_def toolHandlers_def switch_call_def Let_def
      split: prod.splits)

lemma tool_loop_not_index: "tool_loop H U tcs st \<noteq> Inl IndexOutOfRange"
  by (induction tcs arbitrary: st) (auto split: option.splits sum.splits)

lemma toolExecutor_shape:
  "toolExecutor H U st = Inr st' \<Longrightarrow>
   \<exists>ms. st' = st\<lparr>Messages := Messages st @ ms\<rparr> \<and>
        map ToolCallID ms = map ID (filter (registered H) (ToolCalls (last (Messages st)))) \<and>
        list_all (\<lambda>m. Role m = Tool) ms"
proof (cases "ToolCalls (last (Messages st)) = []")
  case True
  assume "toolExecutor H U st = Inr st'"
  with True have "st' = st" by (simp add: toolExecutor_def split: if_splits)
  with True show ?thesis by simp
next
  case False
  assume "toolExecutor H U st = Inr st'"
  with False have "tool_loop H U (ToolCalls (last (Messages st))) st = Inr st'"
    by (simp add: toolExecutor_def split: if_splits)
  then show ?thesis by (rule tool_loop_shape)
qed

lemma toolExecutor_returns:
  assumes "Messages st \<noteq> []"
    and "list_all (handler_returns H U) (ToolCalls (last (Messages st)))"
  shows "\<exists>st'. toolExecutor H U st = Inr st'"
  using assms tool_loop_returns [of H U "ToolCalls (last (Messages st))" st]
  by (auto simp: toolExecutor_def Let_def)

lemma list_all_toolHandlers_return: "list_all (handler_returns toolHandlers U) tcs"
  by (simp add: list_all_iff toolHandlers_return)

lemma tool_loop_skips:
  "H (Name (Function tc)) = None \<Longrightarrow>
   tool_loop H U (pre @ tc # post) st = tool_loop H U (pre @ post) st"
  by (induction pre arbitrary: st) (auto split: option.splits sum.splits)

lemma toolHandlers_switch:
  "toolHandlers (Name (Function tc)) = Some h \<Longrightarrow>
   \<exists>c. switch_call U h tc = Inr (c, None) \<and> c \<in> canned"
  by (auto simp: toolHandlers_def switch_call_def Let_def canned_def SendCustomerMessage_def
      IssueRefund_def CancelOrder_def UpdateAddressForOrder_def
      split: if_splits prod.splits)

lemma tool_loop_toolHandlers:
  "\<exists>ms. tool_loop toolHandlers U tcs st = Inr (st\<lparr>Messages := Messages st @ ms\<rparr>) \<and>
        list_all (\<lambda>m. Content m \<in> canned) ms"
proof (induction tcs arbitrary: st)
  case Nil
  show ?case by (rule exI [of _ "[]"]) simp
next
  case (Cons tc tcs)
  show ?case
  proof (cases "toolHandlers (Name (Function tc))")
    case None
    with Cons.IH [of st] show ?thesis by simp
  next
    case (Some h)
    from toolHandlers_switch [OF Some, of U] obtain c where
      c: "switch_call U h tc = Inr (c, None)" "c \<in> canned" by blast
    let ?st1 = "st\<lparr>Messages := Messages st @ [tool_message c tc]\<rparr>"
    from Cons.IH [of ?st1] obtain ms where
      ms: "tool_loop toolHandlers U tcs ?st1 = Inr (?st1\<lparr>Messages := Messages ?st1 @ ms\<rparr>)"
          "list_all (\<lambda>m. Content m \<in> canned) ms" by blast
    show ?thesis
      apply (rule exI [of _ "tool_message c tc # ms"])
      using Some c ms by (simp add: result_content_def tool_message_def)
  qed
qed

lemma tool_loop_append:
  "tool_loop H U (xs @ ys) st =
     (case tool_loop H U xs st of Inl e \<Rightarrow> Inl e | Inr st1 \<Rightarrow> tool_loop H U ys st1)"
  by (induction xs arbitrary: st) (auto split: option.splits sum.splits)

lemma assistant_appends:
  "assistant G M st = Inr st1 \<Longrightarrow> \<exists>resp. G (inputMsgs M st) = Inr resp \<and>
     st1 = st\<lparr>Messages := Messages st @ [resp]\<rparr>"
  by (auto simp: assistant_def split: sum.splits)

lemma toolMap_lookup:
  "build_toolMap (tools mulT expT addT) Map.empty name =
     (if name = ''add'' then Some (InferTool ''add'' addT)
      else if name = ''exponentiate'' then Some (InferTool ''exponentiate'' expT)
      else if name = ''multiply'' then Some (InferTool ''multiply'' mulT)
      else None)"
  by (simp add: tools_def InferTool_def)




lemma toolExecutor_not_index:
  "Messages st \<noteq> [] \<Longrightarrow> toolExecutor H U st \<noteq> Inl IndexOutOfRange"
  by (simp add: toolExecutor_def Let_def tool_loop_not_index)

lemma Invoke_not_index: "Invoke n G M H U st \<noteq> Inl IndexOutOfRange"
proof (induction n arbitrary: st)
  case 0
  show ?case by simp
next
  case (Suc n)
  show ?case
  proof (cases "assistant G M st")
    case (Inl e)
    then have "e \<noteq> IndexOutOfRange" by (auto simp: assistant_def split: sum.splits)
    with Inl show ?thesis by simp
  next
    case (Inr st1)
    from assistant_appends [OF Inr] have ne: "Messages st1 \<noteq> []" by auto
    then obtain nxt where br: "branch st1 = Inr nxt"
      by (cases "ToolCalls (last (Messages st1)) = []") (auto simp: branch_def)
    show ?thesis
    proof (cases "nxt = ''tools''")
      case False
      with Inr br show ?thesis by simp
    next
      case True
      show ?thesis
      proof (cases "toolExecutor H U st1")
        case (Inl e)
        with toolExecutor_not_index [OF ne, of H U] have "e \<noteq> IndexOutOfRange" by auto
        with Inl Inr br True show ?thesis by simp
      next
        case (Inr st2)
        with \<open>assistant G M st = Inr st1\<close> br True Suc.IH [of st2] show ?thesis by simp
      qed
    qed
  qed
qed

lemma toolMap_known:
  "known_tool tc \<Longrightarrow> \<exists>t. build_toolMap (tools mulT expT addT) Map.empty (Name (Function tc)) = Some t"
  by (auto simp: known_tool_def toolMap_lookup)

lemma toolMap_unknown:
  "\<not> known_tool tc \<Longrightarrow> build_toolMap (tools mulT expT addT) Map.empty (Name (Function tc)) = None"
  by (auto simp: known_tool_def toolMap_lookup)

lemma dispatch_loop_known:
  "list_all known_tool tcs \<Longrightarrow>
   \<exists>ms. dispatch_loop (build_toolMap (tools mulT expT addT) Map.empty) tcs msgs = Inr (msgs @ ms) \<and>
        map ToolCallID ms = map ID tcs"
proof (induction tcs arbitrary: msgs)
  case Nil
  show ?case by (rule exI [of _ "[]"]) simp
next
  case (Cons tc tcs)
  from Cons.prems have k: "known_tool tc" and ks: "list_all known_tool tcs" by simp_all
  from toolMap_known [OF k, of mulT expT addT] obtain t where
    t: "build_toolMap (tools mulT expT addT) Map.empty (Name (Function tc)) = Some t" ..
  let ?m = "tool_message (fst (InvokableRun t (Arguments (Function tc)))) tc"
  from Cons.IH [OF ks, of "msgs @ [?m]"] obtain ms where
    ms: "dispatch_loop (build_toolMap (tools mulT expT addT) Map.empty) tcs (msgs @ [?m]) =
           Inr ((msgs @ [?m]) @ ms)" "map ToolCallID ms = map ID tcs" by blast
  show ?case
    apply (rule exI [of _ "?m # ms"])
    using t ms by (simp add: tool_message_def)
qed

lemma dispatch_loop_unknown:
  "\<not> list_all known_tool tcs \<Longrightarrow>
   dispatch_loop (build_toolMap (tools mulT expT addT) Map.empty) tcs msgs = Inl NilPointerDereference"
proof (induction tcs arbitrary: msgs)
  case Nil
  then show ?case by simp
next
  case (Cons tc tcs)
  show ?case
  proof (cases "known_tool tc")
    case False
    from toolMap_unknown [OF this, of mulT expT addT] show ?thesis by simp
  next
    case True
    with Cons.prems have "\<not> list_all known_tool tcs" by simp
    from Cons.IH [OF this] toolMap_known [OF True, of mulT expT addT]
    show ?thesis by (auto simp: Let_def)
  qed
qed

lemma toolHandlers_switch_exact:
  "toolHandlers (Name (Function tc)) = Some h \<Longrightarrow>
   switch_call U h tc =
     Inr (if Name (Function tc) = ''send_customer_message'' then ''sent''
          else if Name (Function tc) = ''issue_refund'' then ''refund_queued''
          else if Name (Function tc) = ''cancel_order'' then ''cancelled''
          else ''address_updated'', None)"
  by (auto simp: toolHandlers_def switch_call_def Let_def SendCustomerMessage_def
      IssueRefund_def CancelOrder_def UpdateAddressForOrder_def
      split: if_splits prod.splits)

lemma decode_error_registered:
  "decode_error U tc = Some e \<Longrightarrow> \<exists>h. toolHandlers (Name (Function tc)) = Some h"
  by (auto simp: decode_error_def toolHandlers_def Let_def split: if_splits)

lemma tool_loop_toolHandlers_ids:
  "\<exists>ms. tool_loop toolHandlers U tcs st = Inr (st\<lparr>Messages := Messages st @ ms\<rparr>) \<and>
        list_all (\<lambda>m. Content m \<in> canned) ms \<and>
        map ToolCallID ms = map ID (filter (registered toolHandlers) tcs)"
proof -
  from tool_loop_toolHandlers [of U tcs st] obtain ms where
    ms: "tool_loop toolHandlers U tcs st = Inr (st\<lparr>Messages := Messages st @ ms\<rparr>)"
        "list_all (\<lambda>m. Content m \<in> canned) ms" by blast
  from tool_loop_shape [OF ms(1)] obtain ms' where
    ms': "st\<lparr>Messages := Messages st @ ms\<rparr> = st\<lparr>Messages := Messages st @ ms'\<rparr>"
         "map ToolCallID ms' = map ID (filter (registered toolHandlers) tcs)" by blast
  from ms'(1) have "Messages (st\<lparr>Messages := Messages st @ ms\<rparr>) =
      Messages (st\<lparr>Messages := Messages st @ ms'\<rparr>)" by (rule arg_cong)
  then have "ms = ms'" by simp
  with ms ms'(2) show ?thesis by blast
qed




section \<open>The claims\<close>

subsection \<open>C1: one Tool message per invocation\<close>

text \<open>
  Claim C1, as the code has it. In one pass the executor appends exactly one Tool message
  for every invocation of the last message whose name has a handler, in the order of the
  invocations and each with the \<open>ToolCallID\<close> of its invocation; an invocation whose
  name has no handler gets no message. The pass returns whenever the history is not
  empty and no handler panics.
\<close>

theorem C1_one_tool_message_per_registered_invocation:
  assumes "Messages st \<noteq> []"
    and "list_all (handler_returns H U) (ToolCalls (last (Messages st)))"
  shows "\<exists>ms. toolExecutor H U st = Inr (st\<lparr>Messages := Messages st @ ms\<rparr>) \<and>
              map ToolCallID ms = map ID (filter (registered H) (ToolCalls (last (Messages st)))) \<and>
              list_all (\<lambda>m. Role m = Tool) ms"
proof -
  from toolExecutor_returns [OF assms] obtain st' where "toolExecutor H U st = Inr st'" ..
  with toolExecutor_shape [OF this] show ?thesis by auto
qed

text \<open>
  Claim C1 as stated (one Tool message per invocation) fails when a name has no handler:
  of the two invocations \<open>add\<close> and \<open>cancel_order\<close> only the second is answered.
\<close>

theorem C1_counterexample:
  "toolExecutor toolHandlers Unmarshal_demo (answered '''' [call_add, call_cancel]) =
     Inr ((answered '''' [call_add, call_cancel])
           \<lparr>Messages := Messages (answered '''' [call_add, call_cancel]) @
                         [tool_message ''cancelled'' call_cancel]\<rparr>)
   \<and> ToolCalls (last (Messages (answered '''' [call_add, call_cancel]))) = [call_add, call_cancel]
   \<and> length [tool_message ''cancelled'' call_cancel] \<noteq> length [call_add, call_cancel]"
  by (simp add: toolExecutor_def answered_def demo_state_def AssistantMessage_def
      call_add_def call_cancel_def toolHandlers_def switch_call_def CancelOrder_def
      result_content_def Let_def)

text \<open>The theorem of C1 at the same state: one message, for the invocation \<open>b\<close>.\<close>

theorem C1_witness:
  "Messages (answered '''' [call_add, call_cancel]) \<noteq> [] \<and>
   list_all (handler_returns toolHandlers Unmarshal_demo)
     (ToolCalls (last (Messages (answered '''' [call_add, call_cancel])))) \<and>
   (\<exists>ms. toolExecutor toolHandlers Unmarshal_demo (answered '''' [call_add, call_cancel]) =
            Inr ((answered '''' [call_add, call_cancel])
                  \<lparr>Messages := Messages (answered '''' [call_add, call_cancel]) @ ms\<rparr>) \<and>
         map ToolCallID ms = [''b''] \<and> list_all (\<lambda>m. Role m = Tool) ms)"
proof -
  let ?st = "answered '''' [call_add, call_cancel]"
  have ne: "Messages ?st \<noteq> []" by (simp add: answered_def)
  have ret: "list_all (handler_returns toolHandlers Unmarshal_demo) (ToolCalls (last (Messages ?st)))"
    by (rule list_all_toolHandlers_return)
  have ids: "map ID (filter (registered toolHandlers) (ToolCalls (last (Messages ?st)))) = [''b'']"
    by (simp add: answered_def AssistantMessage_def registered_def toolHandlers_def
        call_add_def call_cancel_def)
  from C1_one_tool_message_per_registered_invocation [OF ne ret] ids ne ret
  show ?thesis by simp
qed

subsection \<open>C2: unregistered tool names\<close>

text \<open>
  Claim C2, as the code has it. An invocation whose name has no handler raises nothing
  and appends nothing: the pass of the executor is the pass over the other invocations
  of the message. The branch has chosen \<open>tools\<close>, and after the pass the run goes on
  with the assistant node on the state the pass returns.
\<close>

theorem C2_unregistered_invocation_is_skipped:
  assumes "assistant G M st = Inr st1"
    and "ToolCalls (last (Messages st1)) = pre @ tc # post"
    and "H (Name (Function tc)) = None"
  shows "toolExecutor H U st1 = tool_loop H U (pre @ post) st1 \<and>
         Invoke (Suc n) G M H U st =
           (case tool_loop H U (pre @ post) st1 of
              Inl e \<Rightarrow> Inl e
            | Inr st2 \<Rightarrow> Invoke n G M H U st2)"
proof -
  from assms(1) have ne: "Messages st1 \<noteq> []"
    by (auto simp: assistant_def split: sum.splits)
  from ne assms(2,3) have ex: "toolExecutor H U st1 = tool_loop H U (pre @ post) st1"
    by (simp add: toolExecutor_def tool_loop_skips)
  from ne assms(2) have br: "branch st1 = Inr ''tools''"
    by (simp add: branch_def)
  from assms(1) br ex show ?thesis by simp
qed

text \<open>
  Claim C2 as stated (a Tool message starting with \<open>Error:\<close> is appended) fails: for the
  single invocation \<open>add\<close>, which has no handler, the executor returns the state as it
  received it.
\<close>

theorem C2_counterexample:
  "toolHandlers (Name (Function call_add)) = None \<and>
   toolExecutor toolHandlers Unmarshal_demo (answered '''' [call_add]) =
     Inr (answered '''' [call_add])"
  by (simp add: toolExecutor_def answered_def demo_state_def AssistantMessage_def
      call_add_def toolHandlers_def)

text \<open>The theorem of C2 at the demo state, with the model that asks for \<open>add\<close>.\<close>

theorem C2_witness:
  "assistant add_model Marshal_demo demo_state = Inr (answered '''' [call_add]) \<and>
   ToolCalls (last (Messages (answered '''' [call_add]))) = [] @ call_add # [] \<and>
   toolHandlers (Name (Function call_add)) = None \<and>
   toolExecutor toolHandlers Unmarshal_demo (answered '''' [call_add]) =
     Inr (answered '''' [call_add]) \<and>
   Invoke (Suc 1) add_model Marshal_demo toolHandlers Unmarshal_demo demo_state =
     Invoke 1 add_model Marshal_demo toolHandlers Unmarshal_demo (answered '''' [call_add])"
proof -
  have a: "assistant add_model Marshal_demo demo_state = Inr (answered '''' [call_add])"
    by (simp add: assistant_def inputMsgs_def add_model_def demo_state_def answered_def
        SystemMessage_def UserMessage_def)
  have b: "ToolCalls (last (Messages (answered '''' [call_add]))) = [] @ call_add # []"
    by (simp add: answered_def AssistantMessage_def)
  have c: "toolHandlers (Name (Function call_add)) = None"
    by (simp add: toolHandlers_def call_add_def)
  from C2_unregistered_invocation_is_skipped
         [where H = toolHandlers and U = Unmarshal_demo and n = 1, OF a b c] a b c
  show ?thesis by simp
qed

subsection \<open>C3: arguments that fail to deserialize\<close>

text \<open>
  Claim C3, as the code has it. An invocation of one of the four tools whose payload
  fails to decode neither fails the process nor is reported. The executor returns, and
  at the place of the invocation in the order of the calls the history holds one Tool
  message with the id of the invocation whose content is the result of the handler of
  that tool (\<open>sent\<close>, \<open>refund_queued\<close>, \<open>cancelled\<close> or \<open>address_updated\<close>), not a
  description of the decoding error. The other messages of the pass carry results of
  handlers as well.
\<close>

theorem C3_decode_error_is_discarded:
  assumes ne: "Messages st \<noteq> []"
    and calls: "ToolCalls (last (Messages st)) = pre @ tc # post"
    and fail: "decode_error U tc = Some e"
  shows "\<exists>ms1 ms2.
           toolExecutor toolHandlers U st =
             Inr (st\<lparr>Messages := Messages st @ ms1 @
                    [\<lparr>Role = Tool,
                      Content =
                        (if Name (Function tc) = ''send_customer_message'' then ''sent''
                         else if Name (Function tc) = ''issue_refund'' then ''refund_queued''
                         else if Name (Function tc) = ''cancel_order'' then ''cancelled''
                         else ''address_updated''),
                      ToolCalls = [], ToolCallID = ID tc\<rparr>] @ ms2\<rparr>) \<and>
           map ToolCallID ms1 = map ID (filter (registered toolHandlers) pre) \<and>
           map ToolCallID ms2 = map ID (filter (registered toolHandlers) post) \<and>
           list_all (\<lambda>m. Content m \<in> {''sent'', ''refund_queued'', ''cancelled'', ''address_updated''})
             (ms1 @ ms2)"
proof -
  let ?c = "if Name (Function tc) = ''send_customer_message'' then ''sent''
            else if Name (Function tc) = ''issue_refund'' then ''refund_queued''
            else if Name (Function tc) = ''cancel_order'' then ''cancelled''
            else ''address_updated''"
  let ?m = "\<lparr>Role = Tool, Content = ?c, ToolCalls = [], ToolCallID = ID tc\<rparr>"
  from decode_error_registered [OF fail] obtain h where
    h: "toolHandlers (Name (Function tc)) = Some h" ..
  from toolHandlers_switch_exact [OF h, of U] have sw: "switch_call U h tc = Inr (?c, None)" .
  from tool_loop_toolHandlers_ids [of U pre st] obtain ms1 where
    ms1: "tool_loop toolHandlers U pre st = Inr (st\<lparr>Messages := Messages st @ ms1\<rparr>)"
         "list_all (\<lambda>m. Content m \<in> canned) ms1"
         "map ToolCallID ms1 = map ID (filter (registered toolHandlers) pre)" by blast
  let ?st2 = "st\<lparr>Messages := Messages st @ ms1 @ [?m]\<rparr>"
  from tool_loop_toolHandlers_ids [of U post ?st2] obtain ms2 where
    ms2: "tool_loop toolHandlers U post ?st2 = Inr (?st2\<lparr>Messages := Messages ?st2 @ ms2\<rparr>)"
         "list_all (\<lambda>m. Content m \<in> canned) ms2"
         "map ToolCallID ms2 = map ID (filter (registered toolHandlers) post)" by blast
  have "tool_loop toolHandlers U (pre @ tc # post) st =
          Inr (st\<lparr>Messages := Messages st @ ms1 @ [?m] @ ms2\<rparr>)"
    using ms1(1) ms2(1) h sw
    by (simp add: tool_loop_append result_content_def tool_message_def)
  with ne calls have "toolExecutor toolHandlers U st =
      Inr (st\<lparr>Messages := Messages st @ ms1 @ [?m] @ ms2\<rparr>)"
    by (simp add: toolExecutor_def)
  with ms1(2,3) ms2(2,3) show ?thesis by (auto simp: canned_def)
qed

text \<open>
  Claim C3 as stated (the content is an error description) fails: the payload \<open>{\<close> of
  the invocation does not decode, and the message appended for it says \<open>cancelled\<close>.
\<close>

theorem C3_counterexample:
  "fst (intoCancelOrderArgs Unmarshal_demo (Arguments (Function call_truncated)) '''') =
     Some ''unexpected end of JSON input'' \<and>
   toolExecutor toolHandlers Unmarshal_demo (answered '''' [call_truncated]) =
     Inr ((answered '''' [call_truncated])
           \<lparr>Messages := Messages (answered '''' [call_truncated]) @
                         [tool_message ''cancelled'' call_truncated]\<rparr>)"
  by (simp add: toolExecutor_def answered_def demo_state_def AssistantMessage_def
      call_truncated_def toolHandlers_def switch_call_def CancelOrder_def
      result_content_def Let_def Unmarshal_demo_def decode_only_def)

text \<open>The theorem of C3 at the state of the counterexample.\<close>

theorem C3_witness:
  "Messages (answered '''' [call_truncated]) \<noteq> [] \<and>
   ToolCalls (last (Messages (answered '''' [call_truncated]))) = [] @ call_truncated # [] \<and>
   decode_error Unmarshal_demo call_truncated = Some ''unexpected end of JSON input'' \<and>
   toolExecutor toolHandlers Unmarshal_demo (answered '''' [call_truncated]) =
     Inr ((answered '''' [call_truncated])
           \<lparr>Messages := Messages (answered '''' [call_truncated]) @
              [\<lparr>Role = Tool, Content = ''cancelled'', ToolCalls = [], ToolCallID = ''c''\<rparr>]\<rparr>)"
proof -
  have ne: "Messages (answered '''' [call_truncated]) \<noteq> []" by (simp add: answered_def)
  have calls: "ToolCalls (last (Messages (answered '''' [call_truncated]))) =
      [] @ call_truncated # []"
    by (simp add: answered_def AssistantMessage_def)
  have fail: "decode_error Unmarshal_demo call_truncated = Some ''unexpected end of JSON input''"
    by (simp add: decode_error_def call_truncated_def Unmarshal_demo_def decode_only_def)
  have name: "Name (Function call_truncated) = ''cancel_order''" "ID call_truncated = ''c''"
    by (simp_all add: call_truncated_def)
  from C3_decode_error_is_discarded [OF ne calls fail] name ne calls fail
  show ?thesis by auto
qed

subsection \<open>C4: the shape of the answer and the branch\<close>

text \<open>
  Claim C4, as the code has it. After the assistant node the branch looks at the tool
  calls of the answer only: with none the run ends with the state of the assistant,
  whether the content is empty or not; with at least one the run enters the executor,
  whether the content is empty or not.
\<close>

theorem C4_branch_looks_at_tool_calls_only:
  assumes "assistant G M st = Inr st1"
  shows "branch st1 = Inr (if ToolCalls (last (Messages st1)) = [] then END else ''tools'') \<and>
         ''tools'' \<noteq> END \<and>
         Invoke (Suc n) G M H U st =
           (if ToolCalls (last (Messages st1)) = [] then Inr st1
            else (case toolExecutor H U st1 of
                    Inl e \<Rightarrow> Inl e
                  | Inr st2 \<Rightarrow> Invoke n G M H U st2))"
proof -
  from assistant_appends [OF assms] have ne: "Messages st1 \<noteq> []" by auto
  then have br: "branch st1 = Inr (if ToolCalls (last (Messages st1)) = [] then END else ''tools'')"
    by (simp add: branch_def)
  have neq: "''tools'' \<noteq> END" by (simp add: END_def)
  from assms br neq show ?thesis by (simp add: END_def)
qed

text \<open>
  Claim C4 as stated fails for an answer with both content and a tool call: the branch
  chooses \<open>tools\<close>, and with a model that always answers so the run ends in the error
  of the engine, not in a final answer.
\<close>

theorem C4_counterexample:
  "Content (last (Messages (answered ''I will cancel the order.'' [call_cancel]))) =
     ''I will cancel the order.'' \<and>
   ToolCalls (last (Messages (answered ''I will cancel the order.'' [call_cancel]))) =
     [call_cancel] \<and>
   branch (answered ''I will cancel the order.'' [call_cancel]) = Inr ''tools'' \<and>
   Invoke 1 both_model Marshal_demo toolHandlers Unmarshal_demo demo_state =
     Inl ExceedsMaxSteps \<and>
   Invoke 2 both_model Marshal_demo toolHandlers Unmarshal_demo demo_state =
     Inl ExceedsMaxSteps"
  by (simp add: answered_def AssistantMessage_def branch_def demo_state_def both_model_def
      numeral_2_eq_2 assistant_def inputMsgs_def toolExecutor_def call_cancel_def
      toolHandlers_def switch_call_def CancelOrder_def result_content_def Let_def)

text \<open>The theorem of C4 at the demo state, with that model.\<close>

theorem C4_witness:
  "assistant both_model Marshal_demo demo_state =
     Inr (answered ''I will cancel the order.'' [call_cancel]) \<and>
   branch (answered ''I will cancel the order.'' [call_cancel]) = Inr ''tools'' \<and>
   Invoke (Suc 0) both_model Marshal_demo toolHandlers Unmarshal_demo demo_state =
     Inl ExceedsMaxSteps"
proof -
  have a: "assistant both_model Marshal_demo demo_state =
      Inr (answered ''I will cancel the order.'' [call_cancel])"
    by (simp add: assistant_def both_model_def answered_def)
  have t: "ToolCalls (last (Messages (answered ''I will cancel the order.'' [call_cancel]))) \<noteq> []"
    by (simp add: answered_def AssistantMessage_def)
  have e: "toolExecutor toolHandlers Unmarshal_demo
             (answered ''I will cancel the order.'' [call_cancel]) =
           Inr ((answered ''I will cancel the order.'' [call_cancel])
                 \<lparr>Messages := Messages (answered ''I will cancel the order.'' [call_cancel]) @
                               [tool_message ''cancelled'' call_cancel]\<rparr>)"
    by (simp add: toolExecutor_def answered_def demo_state_def AssistantMessage_def
        call_cancel_def toolHandlers_def switch_call_def CancelOrder_def
        result_content_def Let_def)
  from C4_branch_looks_at_tool_calls_only
         [where H = toolHandlers and U = Unmarshal_demo and n = 0, OF a] a t e
  show ?thesis by simp
qed

subsection \<open>C5: the scripted round trip\<close>




subsection \<open>C6: a handler that returns an error\<close>



subsection \<open>C7: a failure of the model\<close>




subsection \<open>C8: the scenario record\<close>

text \<open>
  Claim C8. The state the executor returns differs from its input in the history only,
  which is extended; the scenario record is the same. The type of the record is
  arbitrary, which covers the order, ticket, incident and matter records alike.
\<close>

theorem C8_executor_leaves_scenario_record:
  "toolExecutor H U st = Inr st' \<Longrightarrow>
   Order st' = Order st \<and> (\<exists>ms. st' = st\<lparr>Messages := Messages st @ ms\<rparr>)"
proof -
  assume "toolExecutor H U st = Inr st'"
  from toolExecutor_shape [OF this] obtain ms where "st' = st\<lparr>Messages := Messages st @ ms\<rparr>"
    by blast
  then show ?thesis by auto
qed

text \<open>The theorem of C8 at the demo state with a \<open>cancel_order\<close> call.\<close>

theorem C8_witness:
  "toolExecutor toolHandlers Unmarshal_demo (answered '''' [call_cancel]) =
     Inr ((answered '''' [call_cancel])
           \<lparr>Messages := Messages (answered '''' [call_cancel]) @
                         [tool_message ''cancelled'' call_cancel]\<rparr>) \<and>
   Order ((answered '''' [call_cancel])
           \<lparr>Messages := Messages (answered '''' [call_cancel]) @
                         [tool_message ''cancelled'' call_cancel]\<rparr>) = Some demo_order"
proof -
  let ?st = "answered '''' [call_cancel]"
  let ?st' = "?st\<lparr>Messages := Messages ?st @ [tool_message ''cancelled'' call_cancel]\<rparr>"
  have run: "toolExecutor toolHandlers Unmarshal_demo ?st = Inr ?st'"
    by (simp add: toolExecutor_def answered_def demo_state_def AssistantMessage_def
        call_cancel_def toolHandlers_def switch_call_def CancelOrder_def
        result_content_def Let_def)
  have "Order ?st = Some demo_order" by (simp add: answered_def demo_state_def)
  with C8_executor_leaves_scenario_record [OF run] run show ?thesis by simp
qed

subsection \<open>C9: the index of the last message\<close>

text \<open>
  Claim C9. After the assistant node has returned, the history is not empty, so the
  index expression is in bounds in the branch and in the executor; and no run of the
  graph, from any initial state and for any number of rounds, ends in the index panic.
\<close>

theorem C9_last_message_index_in_bounds:
  "(assistant G M st = Inr st1 \<longrightarrow>
      Messages st1 \<noteq> [] \<and> branch st1 \<noteq> Inl IndexOutOfRange \<and>
      toolExecutor H U st1 \<noteq> Inl IndexOutOfRange) \<and>
   Invoke n G M H U st \<noteq> Inl IndexOutOfRange"
proof -
  have "Messages st1 \<noteq> [] \<and> branch st1 \<noteq> Inl IndexOutOfRange \<and>
        toolExecutor H U st1 \<noteq> Inl IndexOutOfRange" if "assistant G M st = Inr st1"
  proof -
    from assistant_appends [OF that] have ne: "Messages st1 \<noteq> []" by auto
    then have "branch st1 \<noteq> Inl IndexOutOfRange" by (simp add: branch_def Let_def)
    with ne toolExecutor_not_index [OF ne, of H U] show ?thesis by simp
  qed
  with Invoke_not_index [of n G M H U st] show ?thesis by blast
qed

text \<open>The theorem of C9 at the state with an empty history.\<close>

theorem C9_witness:
  "assistant support_model Marshal_demo empty_state =
     Inr (empty_state\<lparr>Messages := [AssistantMessage '''' [call_cancel]]\<rparr>) \<and>
   Messages (empty_state\<lparr>Messages := [AssistantMessage '''' [call_cancel]]\<rparr>) \<noteq> [] \<and>
   branch (empty_state\<lparr>Messages := [AssistantMessage '''' [call_cancel]]\<rparr>) \<noteq>
     Inl IndexOutOfRange \<and>
   toolExecutor toolHandlers Unmarshal_demo
     (empty_state\<lparr>Messages := [AssistantMessage '''' [call_cancel]]\<rparr>) \<noteq> Inl IndexOutOfRange \<and>
   Invoke 2 support_model Marshal_demo toolHandlers Unmarshal_demo empty_state \<noteq>
     Inl IndexOutOfRange"
proof -
  have a: "assistant support_model Marshal_demo empty_state =
      Inr (empty_state\<lparr>Messages := [AssistantMessage '''' [call_cancel]]\<rparr>)"
    by (simp add: assistant_def inputMsgs_def support_model_def empty_state_def
        SystemMessage_def)
  from C9_last_message_index_in_bounds
         [where G = support_model and M = Marshal_demo and st = empty_state
            and ?st1.0 = "empty_state\<lparr>Messages := [AssistantMessage '''' [call_cancel]]\<rparr>"
            and H = toolHandlers and U = Unmarshal_demo and n = 2] a
  show ?thesis by blast
qed

subsection \<open>C10: dispatch in the direct program\<close>

text \<open>
  Claim C10. The dispatch loop of the direct program returns (with one Tool message per
  call) when every requested name is one of \<open>multiply\<close>, \<open>exponentiate\<close>, \<open>add\<close>;
  when some requested name is not, it ends in the panic of the call on the nil
  interface value, and so does the program.
\<close>

theorem C10_dispatch_panics_on_unregistered_name:
  "(list_all (\<lambda>tc. Name (Function tc) \<in> {''multiply'', ''exponentiate'', ''add''}) tcs \<longrightarrow>
      (\<exists>ms. dispatch_loop (build_toolMap (tools mulT expT addT) Map.empty) tcs msgs =
               Inr (msgs @ ms) \<and> map ToolCallID ms = map ID tcs)) \<and>
   (\<not> list_all (\<lambda>tc. Name (Function tc) \<in> {''multiply'', ''exponentiate'', ''add''}) tcs \<longrightarrow>
      dispatch_loop (build_toolMap (tools mulT expT addT) Map.empty) tcs msgs =
        Inl NilPointerDereference) \<and>
   (G [UserMessage ''What is 393 * 12.25? Also, what is 11 + 49?''] = Inr resp \<and>
    \<not> list_all (\<lambda>tc. Name (Function tc) \<in> {''multiply'', ''exponentiate'', ''add''})
        (ToolCalls resp) \<longrightarrow>
      main G mulT expT addT = Inl NilPointerDereference)"
proof -
  have eq: "(\<lambda>tc. Name (Function tc) \<in> {''multiply'', ''exponentiate'', ''add''}) = known_tool"
    by (simp add: known_tool_def fun_eq_iff)
  have m: "main G mulT expT addT = Inl NilPointerDereference"
    if "G [UserMessage ''What is 393 * 12.25? Also, what is 11 + 49?''] = Inr resp"
      and "\<not> list_all known_tool (ToolCalls resp)"
    unfolding main_def Let_def using that(1) dispatch_loop_unknown [OF that(2)] by simp
  show ?thesis
    unfolding eq using dispatch_loop_known dispatch_loop_unknown m by blast
qed

text \<open>The theorem of C10 at a response that asks for \<open>add\<close> and for \<open>divide\<close>.\<close>

theorem C10_witness:
  "list_all (\<lambda>tc. Name (Function tc) \<in> {''multiply'', ''exponentiate'', ''add''}) [call_add] \<and>
   dispatch_loop (build_toolMap (tools multiply_2_3 exponentiate_2_3 add_2_3) Map.empty)
     [call_add] [] = Inr [tool_message ''5'' call_add] \<and>
   \<not> list_all (\<lambda>tc. Name (Function tc) \<in> {''multiply'', ''exponentiate'', ''add''})
       [call_add, call_divide] \<and>
   dispatch_loop (build_toolMap (tools multiply_2_3 exponentiate_2_3 add_2_3) Map.empty)
     [call_add, call_divide] [] = Inl NilPointerDereference \<and>
   divide_model [UserMessage ''What is 393 * 12.25? Also, what is 11 + 49?''] =
     Inr (AssistantMessage '''' [call_add, call_divide]) \<and>
   main divide_model multiply_2_3 exponentiate_2_3 add_2_3 = Inl NilPointerDereference"
proof -
  have p: "list_all (\<lambda>tc. Name (Function tc) \<in> {''multiply'', ''exponentiate'', ''add''}) [call_add]"
    by (simp add: call_add_def)
  have q: "\<not> list_all (\<lambda>tc. Name (Function tc) \<in> {''multiply'', ''exponentiate'', ''add''})
       [call_add, call_divide]"
    by (simp add: call_add_def call_divide_def)
  have g: "divide_model [UserMessage ''What is 393 * 12.25? Also, what is 11 + 49?''] =
     Inr (AssistantMessage '''' [call_add, call_divide])"
    by (simp add: divide_model_def)
  have q': "\<not> list_all (\<lambda>tc. Name (Function tc) \<in> {''multiply'', ''exponentiate'', ''add''})
       (ToolCalls (AssistantMessage '''' [call_add, call_divide]))"
    using q by (simp add: AssistantMessage_def)
  have one: "dispatch_loop (build_toolMap (tools multiply_2_3 exponentiate_2_3 add_2_3) Map.empty)
     [call_add] [] = Inr [tool_message ''5'' call_add]"
    by (simp add: toolMap_lookup InferTool_def call_add_def add_2_3_def on_2_3_def)
  from C10_dispatch_panics_on_unregistered_name
         [where tcs = "[call_add, call_divide]" and msgs = "[]" and mulT = multiply_2_3
            and expT = exponentiate_2_3 and addT = add_2_3 and G = divide_model
            and resp = "AssistantMessage '''' [call_add, call_divide]"]
       p q g q' one
  show ?thesis by blast
qed

end
